theory Spec2Isabelle
  imports Complex_Main "HOL-Library.Multiset" "HOL-Library.Word"
begin

section \<open>The session and provider controller of the terminal client (package app)\<close>

text \<open>
  This theory embeds \<^verbatim>\<open>packages/tui/internal/app/app.go\<close>: the resolution of the active
  provider and model (\<^verbatim>\<open>InitializeProvider\<close>, \<^verbatim>\<open>getDefaultModel\<close>), the busy flag
  (\<^verbatim>\<open>IsBusy\<close>), session creation and listing (\<^verbatim>\<open>CreateSession\<close>, \<^verbatim>\<open>ListSessions\<close>) and
  the sending of a chat message (\<^verbatim>\<open>SendChatMessage\<close>).

  Conventions of the embedding.
  \<^item> A Go pointer that the code compares with \<^verbatim>\<open>nil\<close> is an \<open>option\<close>; dereferencing
    \<open>None\<close> is the outcome \<open>Panic\<close>.
  \<^item> A call of the generated HTTP client returns a pair \<^verbatim>\<open>(resp, err)\<close>; it is a value of
    \<open>call_result\<close>: \<open>Err e\<close> when \<^verbatim>\<open>err != nil\<close>, \<open>Resp None\<close> for a nil response with a nil
    error, \<open>Resp (Some r)\<close> otherwise.
  \<^item> The loop variable of a \<^verbatim>\<open>for ... range\<close> statement is a fresh variable in every
    iteration, so \<^verbatim>\<open>&provider\<close> taken in an iteration keeps pointing to the element of
    that iteration. This is the semantics of Go from version 1.22 on, taken as the
    language version of the module: its \<^verbatim>\<open>go.mod\<close> is not among the sources, and the
    imports (\<^verbatim>\<open>log/slog\<close>, \<^verbatim>\<open>bubbletea/v2\<close>) are those of a recent toolchain.
  \<^item> A Go map that the code ranges over is an association list; the order of the list
    stands for the order in which \<^verbatim>\<open>range\<close> visits the entries, which Go leaves
    unspecified. A lookup \<^verbatim>\<open>m[k]\<close> is \<open>map_of\<close>, with the zero value for a missing key.
  \<^item> \<^verbatim>\<open>float32\<close> time stamps are rationals: every finite \<^verbatim>\<open>float32\<close> is one, and for
    finite \<^verbatim>\<open>x\<close>, \<^verbatim>\<open>y\<close> the rounded difference \<^verbatim>\<open>x - y\<close> has the sign of the exact one
    (IEEE 754 with gradual underflow), which is all the code reads of it.
\<close>

subsection \<open>Results of calls\<close>

datatype 'a go_result = Panic | Returns 'a

datatype 'r call_result = Err string | Resp "'r option"

subsection \<open>Data of package client that the code reads\<close>

record ModelInfo =
  model_Id :: string
  model_Name :: string

definition zero_ModelInfo :: ModelInfo where
  "zero_ModelInfo = \<lparr>model_Id = '''', model_Name = ''''\<rparr>"

record ProviderInfo =
  provider_Id :: string
  provider_Name :: string
  provider_Models :: "(string \<times> ModelInfo) list"

record ProviderListBody =
  Providers :: "ProviderInfo list"
  Default :: "string \<rightharpoonup> string"

record PostProviderListResponse =
  pl_StatusCode :: int
  pl_Body :: string
  pl_JSON200 :: "ProviderListBody option"

text \<open>The part of \<^verbatim>\<open>config.State\<close> that the resolution reads.\<close>

record State =
  state_Theme :: string
  state_Provider :: string
  state_Model :: string

datatype ModelSelectedMsg = ModelSelectedMsg ProviderInfo ModelInfo

text \<open>The records written with \<^verbatim>\<open>slog.Error\<close> by \<^verbatim>\<open>InitializeProvider\<close>.\<close>

datatype slog_record =
    Failed_to_list_providers string
  | failed_to_retrieve_providers int string
  | No_providers_configured

subsection \<open>getDefaultModel\<close>

text \<open>
  \<^verbatim>\<open>
  if match, ok := response.JSON200.Default[provider.Id]; ok {
      model := provider.Models[match]
      return &model
  } else {
      for _, model := range provider.Models { return &model }
  }
  return nil
  \<close>
\<close>

definition getDefaultModel :: "ProviderListBody \<Rightarrow> ProviderInfo \<Rightarrow> ModelInfo option" where
  "getDefaultModel body provider =
     (case Default body (provider_Id provider) of
        Some match \<Rightarrow>
          Some (case map_of (provider_Models provider) match of
                  Some model \<Rightarrow> model
                | None \<Rightarrow> zero_ModelInfo)
      | None \<Rightarrow>
          (case provider_Models provider of
             [] \<Rightarrow> None
           | (k, model) # rest \<Rightarrow> Some model))"

subsection \<open>InitializeProvider\<close>

text \<open>Lines 149 to 154: the last provider whose id is \<^verbatim>\<open>"anthropic"\<close>, if any.\<close>

definition find_anthropic :: "ProviderInfo list \<Rightarrow> ProviderInfo option" where
  "find_anthropic ps =
     foldl (\<lambda>anthropic provider.
              if provider_Id provider = ''anthropic'' then Some provider else anthropic)
       None ps"

text \<open>
  Lines 162 to 168: a provider replaces the default as long as the default provider or
  the default model is nil.
\<close>

definition seed_step ::
  "ProviderListBody \<Rightarrow> ProviderInfo option \<times> ModelInfo option \<Rightarrow> ProviderInfo
     \<Rightarrow> ProviderInfo option \<times> ModelInfo option" where
  "seed_step body d provider =
     (if fst d = None \<or> snd d = None
      then (Some provider, getDefaultModel body provider)
      else d)"

text \<open>Lines 146 to 168: the preliminary default provider and model.\<close>

definition preliminary_default ::
  "ProviderListBody \<Rightarrow> ProviderInfo option \<times> ModelInfo option" where
  "preliminary_default body =
     (let anthropic = find_anthropic (Providers body);
          d0 = (case anthropic of
                  None \<Rightarrow> (None, None)
                | Some a \<Rightarrow> (Some a, getDefaultModel body a))
      in foldl (seed_step body) d0 (Providers body))"

text \<open>Lines 180 to 184: the last model of the provider whose id is the persisted one.\<close>

definition scan_models :: "string \<Rightarrow> ModelInfo option \<Rightarrow> (string \<times> ModelInfo) list \<Rightarrow> ModelInfo option" where
  "scan_models wanted currentModel ms =
     foldl (\<lambda>cm km. if model_Id (snd km) = wanted then Some (snd km) else cm) currentModel ms"

text \<open>Lines 176 to 186: one iteration of the scan for the persisted selection.\<close>

definition scan_step ::
  "State \<Rightarrow> ProviderInfo option \<times> ModelInfo option \<Rightarrow> ProviderInfo
     \<Rightarrow> ProviderInfo option \<times> ModelInfo option" where
  "scan_step st c provider =
     (if provider_Id provider = state_Provider st
      then (Some provider, scan_models (state_Model st) (snd c) (provider_Models provider))
      else c)"

text \<open>Lines 174 to 186.\<close>

definition scan_providers ::
  "State \<Rightarrow> ProviderInfo list \<Rightarrow> ProviderInfo option \<times> ModelInfo option" where
  "scan_providers st ps = foldl (scan_step st) (None, None) ps"

text \<open>Lines 187 to 190.\<close>

definition reconcile ::
  "State \<Rightarrow> ProviderInfo list \<Rightarrow> ProviderInfo option \<times> ModelInfo option
     \<Rightarrow> ProviderInfo option \<times> ModelInfo option" where
  "reconcile st ps d =
     (let c = scan_providers st ps
      in if fst c = None \<or> snd c = None then d else c)"

text \<open>Lines 193 to 196: both pointers are dereferenced without a check.\<close>

definition emit ::
  "ProviderInfo option \<times> ModelInfo option \<Rightarrow> (slog_record list \<times> ModelSelectedMsg option) go_result" where
  "emit c =
     (case c of
        (Some p, Some m) \<Rightarrow> Returns ([], Some (ModelSelectedMsg p m))
      | _ \<Rightarrow> Panic)"

text \<open>
  The command returned by \<^verbatim>\<open>InitializeProvider\<close>, run on the answer of
  \<^verbatim>\<open>PostProviderListWithResponse\<close>. It returns the records logged and the message
  (\<open>None\<close> is the nil message).
\<close>

definition InitializeProvider ::
  "PostProviderListResponse call_result \<Rightarrow> State
     \<Rightarrow> (slog_record list \<times> ModelSelectedMsg option) go_result" where
  "InitializeProvider fetched st =
     (case fetched of
        Err e \<Rightarrow> Returns ([Failed_to_list_providers e], None)
      | Resp None \<Rightarrow> Panic
      | Resp (Some r) \<Rightarrow>
          if pl_StatusCode r \<noteq> 200
          then Returns ([failed_to_retrieve_providers (pl_StatusCode r) (pl_Body r)], None)
          else (case pl_JSON200 r of
                  None \<Rightarrow> Panic
                | Some body \<Rightarrow>
                    if length (Providers body) = 0
                    then Returns ([No_providers_configured], None)
                    else emit (reconcile st (Providers body) (preliminary_default body))))"

subsection \<open>Formatting and conversions of the Go library\<close>

text \<open>An \<^verbatim>\<open>error\<close> is modelled by its text, the value of \<^verbatim>\<open>err.Error()\<close>.\<close>

type_synonym error = string

text \<open>The verb \<^verbatim>\<open>%d\<close> of \<^verbatim>\<open>fmt\<close>: the decimal digits, with a minus sign when negative.\<close>

fun digits :: "nat \<Rightarrow> string" where
  "digits n = (if n < 10 then [''0123456789'' ! n]
               else digits (n div 10) @ [''0123456789'' ! (n mod 10)])"

declare digits.simps [simp del]

definition Sprintf_d :: "int \<Rightarrow> string" where
  "Sprintf_d i = (if i < 0 then CHR ''-'' # digits (nat (- i)) else digits (nat i))"

type_synonym float32 = rat

text \<open>
  The conversion \<^verbatim>\<open>float32(n)\<close> of an \<^verbatim>\<open>int64\<close>: the nearest value with a significand of
  24 bits, ties to the even significand. No \<^verbatim>\<open>int64\<close> exceeds the range of \<^verbatim>\<open>float32\<close>.
\<close>

fun bit_length :: "nat \<Rightarrow> nat" where
  "bit_length n = (if n = 0 then 0 else Suc (bit_length (n div 2)))"

declare bit_length.simps [simp del]

definition float32_of_int64 :: "int \<Rightarrow> float32" where
  "float32_of_int64 n =
     (let a = nat \<bar>n\<bar>;
          e = bit_length a - 24;
          q = a div 2 ^ e;
          r = a mod 2 ^ e;
          q' = (if 2 * r > 2 ^ e \<or> (2 * r = 2 ^ e \<and> odd q) then q + 1 else q)
      in of_int (sgn n * int (q' * 2 ^ e)))"

subsection \<open>Sessions, messages and the application state\<close>

record SessionInfo =
  session_Id :: string
  session_Title :: string
  session_Created :: float32

datatype Role = Assistant | User

record MessagePartText =
  part_Type :: string
  part_Text :: string

text \<open>
  \<^verbatim>\<open>client.MessagePart\<close> is a union; \<^verbatim>\<open>FromMessagePartText\<close> overwrites it with a text
  part.
\<close>

datatype MessagePart = MessagePart_zero | MessagePart_Text MessagePartText

definition FromMessagePartText :: "MessagePart \<Rightarrow> MessagePartText \<Rightarrow> MessagePart" where
  "FromMessagePartText part v = MessagePart_Text v"

typedecl Tool_AdditionalProperties

record MessageTime =
  time_Completed :: "float32 option"
  time_Created :: float32

record MessageMetadata =
  meta_SessionID :: string
  meta_Time :: MessageTime
  meta_Tool :: "string \<rightharpoonup> Tool_AdditionalProperties"

record MessageInfo =
  msg_Id :: string
  msg_Role :: Role
  msg_Parts :: "MessagePart list"
  msg_Metadata :: MessageMetadata

record Attachment =
  FilePath :: string
  FileName :: string
  MimeType :: string
  Content :: "8 word list"

text \<open>The fields of \<^verbatim>\<open>App\<close> that the operations below read or write.\<close>

record App =
  app_State :: State
  app_Provider :: "ProviderInfo option"
  app_Model :: "ModelInfo option"
  app_Session :: "SessionInfo option"
  app_Messages :: "MessageInfo list"

subsection \<open>Messages and commands of the event loop\<close>

datatype Msg =
    SessionSelectedMsg "SessionInfo option"
  | OptimisticMessageAddedMsg MessageInfo
  | ErrorToastMsg string

text \<open>
  A \<^verbatim>\<open>tea.Cmd\<close> is a deferred computation. \<open>CmdHandler msg\<close> delivers \<open>msg\<close>,
  \<open>NewErrorToast s\<close> is \<^verbatim>\<open>toast.NewErrorToast(s)\<close>, \<open>PostSessionChatCmd parts\<close> is the
  closure of lines 344 to 362 over \<^verbatim>\<open>parts\<close> (it reads the application state when it
  runs), \<open>Batch\<close> is \<^verbatim>\<open>tea.Batch\<close>.
\<close>

datatype Cmd =
    CmdHandler Msg
  | NewErrorToast string
  | PostSessionChatCmd "MessagePart list"
  | Batch "Cmd list"

subsection \<open>IsBusy\<close>

definition IsBusy :: "App \<Rightarrow> bool" where
  "IsBusy a =
     (if length (app_Messages a) = 0 then False
      else (let lastMessage = app_Messages a ! (length (app_Messages a) - 1)
            in time_Completed (meta_Time (msg_Metadata lastMessage)) = None))"

subsection \<open>CreateSession\<close>

record PostSessionCreateResponse =
  sc_StatusCode :: int
  sc_JSON200 :: "SessionInfo option"

definition CreateSession ::
  "PostSessionCreateResponse call_result \<Rightarrow> (error + SessionInfo option) go_result" where
  "CreateSession created =
     (case created of
        Err err \<Rightarrow> Returns (Inl err)
      | Resp None \<Rightarrow> Panic
      | Resp (Some resp) \<Rightarrow>
          if sc_StatusCode resp \<noteq> 200
          then Returns (Inl (''failed to create session: '' @ Sprintf_d (sc_StatusCode resp)))
          else Returns (Inr (sc_JSON200 resp)))"

subsection \<open>SendChatMessage\<close>

text \<open>
  What the call does besides returning, in program order: the requests it sends itself
  and the appends to \<^verbatim>\<open>a.Messages\<close>.
\<close>

datatype effect = Requested_PostSessionCreate | Appended MessageInfo

text \<open>Lines 318 to 323.\<close>

definition text_parts :: "string \<Rightarrow> MessagePart list" where
  "text_parts txt =
     [FromMessagePartText MessagePart_zero \<lparr>part_Type = ''text'', part_Text = txt\<rparr>]"

text \<open>Lines 325 to 339, with \<^verbatim>\<open>a.Session\<close> dereferenced.\<close>

definition optimisticMessage :: "SessionInfo \<Rightarrow> int \<Rightarrow> int \<Rightarrow> MessagePart list \<Rightarrow> MessageInfo" where
  "optimisticMessage session unixNano unix parts =
     \<lparr>msg_Id = ''optimistic-'' @ Sprintf_d unixNano,
      msg_Role = User,
      msg_Parts = parts,
      msg_Metadata =
        \<lparr>meta_SessionID = session_Id session,
         meta_Time = \<lparr>time_Completed = None, time_Created = float32_of_int64 unix\<rparr>,
         meta_Tool = Map.empty\<rparr>\<rparr>"

text \<open>Lines 318 to 366, for the application state \<open>a\<close> and the commands collected so far.\<close>

definition append_and_dispatch ::
  "App \<Rightarrow> Cmd list \<Rightarrow> effect list \<Rightarrow> int \<Rightarrow> int \<Rightarrow> string
     \<Rightarrow> (App \<times> Cmd \<times> effect list) go_result" where
  "append_and_dispatch a cmds effs unixNano unix txt =
     (let parts = text_parts txt in
      case app_Session a of
        None \<Rightarrow> Panic
      | Some session \<Rightarrow>
          (let m = optimisticMessage session unixNano unix parts
           in Returns
                (a\<lparr>app_Messages := app_Messages a @ [m]\<rparr>,
                 Batch (cmds @ [CmdHandler (OptimisticMessageAddedMsg m), PostSessionChatCmd parts]),
                 effs @ [Appended m])))"

text \<open>
  \<open>created\<close> is the answer of the service to \<^verbatim>\<open>PostSessionCreateWithResponse\<close>, read only
  when the call is made; \<open>unixNano\<close> and \<open>unix\<close> are the two readings of the clock
  (\<^verbatim>\<open>time.Now().UnixNano()\<close>, then \<^verbatim>\<open>time.Now().Unix()\<close>). The result is the new state,
  the command returned and the effects.
\<close>

definition SendChatMessage ::
  "App \<Rightarrow> PostSessionCreateResponse call_result \<Rightarrow> int \<Rightarrow> int \<Rightarrow> string \<Rightarrow> Attachment list
     \<Rightarrow> (App \<times> Cmd \<times> effect list) go_result" where
  "SendChatMessage a created unixNano unix txt attachments =
     (case app_Session a of
        None \<Rightarrow> Panic
      | Some current \<Rightarrow>
          if session_Id current = []
          then (case CreateSession created of
                  Panic \<Rightarrow> Panic
                | Returns (Inl err) \<Rightarrow> Returns (a, NewErrorToast err, [Requested_PostSessionCreate])
                | Returns (Inr session) \<Rightarrow>
                    append_and_dispatch (a\<lparr>app_Session := session\<rparr>)
                      [CmdHandler (SessionSelectedMsg session)] [Requested_PostSessionCreate]
                      unixNano unix txt)
          else append_and_dispatch a [] [] unixNano unix txt)"

text \<open>
  The request that the closure of lines 344 to 362 builds when it runs in state \<open>a\<close>.
\<close>

record PostSessionChatJSONRequestBody =
  chat_SessionID :: string
  chat_Parts :: "MessagePart list"
  chat_ProviderID :: string
  chat_ModelID :: string

definition PostSessionChat_request ::
  "App \<Rightarrow> MessagePart list \<Rightarrow> PostSessionChatJSONRequestBody go_result" where
  "PostSessionChat_request a parts =
     (case (app_Session a, app_Provider a, app_Model a) of
        (Some session, Some provider, Some model) \<Rightarrow>
          Returns \<lparr>chat_SessionID = session_Id session, chat_Parts = parts,
                   chat_ProviderID = provider_Id provider, chat_ModelID = model_Id model\<rparr>
      | _ \<Rightarrow> Panic)"

text \<open>
  Running the closure: \<open>answer\<close> is the pair returned by \<^verbatim>\<open>PostSessionChat\<close> for the
  request, with the status code of the response. The result is the request sent and the
  message delivered (\<open>None\<close> is nil).
\<close>

definition run_PostSessionChatCmd ::
  "App \<Rightarrow> MessagePart list \<Rightarrow> (PostSessionChatJSONRequestBody \<Rightarrow> int call_result)
     \<Rightarrow> (PostSessionChatJSONRequestBody \<times> Msg option) go_result" where
  "run_PostSessionChatCmd a parts answer =
     (case PostSessionChat_request a parts of
        Panic \<Rightarrow> Panic
      | Returns req \<Rightarrow>
          (case answer req of
             Err err \<Rightarrow> Returns (req, Some (ErrorToastMsg (''failed to send message: '' @ err)))
           | Resp None \<Rightarrow> Returns (req, None)
           | Resp (Some status) \<Rightarrow>
               if status \<noteq> 200
               then Returns (req, Some (ErrorToastMsg (''failed to send message: '' @ Sprintf_d status)))
               else Returns (req, None)))"

subsection \<open>ListSessions\<close>




subsection \<open>The persisted selection, in the words of the specification\<close>

text \<open>
  Some fetched provider's id equals the persisted provider id and that provider's model
  mapping contains a model with the persisted model id.
\<close>

definition persisted_available :: "State \<Rightarrow> ProviderInfo list \<Rightarrow> bool" where
  "persisted_available st ps =
     (\<exists>p \<in> set ps. provider_Id p = state_Provider st \<and>
        (\<exists>km \<in> set (provider_Models p). model_Id (snd km) = state_Model st))"

subsection \<open>Example data for the resolution\<close>

definition ok_response :: "ProviderListBody \<Rightarrow> PostProviderListResponse" where
  "ok_response body = \<lparr>pl_StatusCode = 200, pl_Body = [], pl_JSON200 = Some body\<rparr>"

definition ex_claude :: ModelInfo where
  "ex_claude = \<lparr>model_Id = ''claude-3'', model_Name = ''Claude 3''\<rparr>"

definition ex_gpt :: ModelInfo where
  "ex_gpt = \<lparr>model_Id = ''gpt-4'', model_Name = ''GPT 4''\<rparr>"

definition ex_anthropic :: ProviderInfo where
  "ex_anthropic = \<lparr>provider_Id = ''anthropic'', provider_Name = ''Anthropic'',
     provider_Models = [(''claude-3'', ex_claude)]\<rparr>"

definition ex_openai :: ProviderInfo where
  "ex_openai = \<lparr>provider_Id = ''openai'', provider_Name = ''OpenAI'',
     provider_Models = [(''gpt-4'', ex_gpt)]\<rparr>"

definition ex_anthropic_bare :: ProviderInfo where
  "ex_anthropic_bare = \<lparr>provider_Id = ''anthropic'', provider_Name = ''Anthropic'',
     provider_Models = []\<rparr>"

definition ex_local_bare :: ProviderInfo where
  "ex_local_bare = \<lparr>provider_Id = ''local'', provider_Name = ''Local'',
     provider_Models = []\<rparr>"

definition ex_state :: "string \<Rightarrow> string \<Rightarrow> State" where
  "ex_state p m = \<lparr>state_Theme = ''system'', state_Provider = p, state_Model = m\<rparr>"

subsection \<open>The contract of sort.Slice\<close>







subsection \<open>Example data for sessions and sends\<close>

definition ex_session :: "string \<Rightarrow> float32 \<Rightarrow> SessionInfo" where
  "ex_session i t = \<lparr>session_Id = i, session_Title = ''New session'', session_Created = t\<rparr>"

definition ex_app :: App where
  "ex_app = \<lparr>app_State = ex_state ''anthropic'' ''claude-3'',
     app_Provider = Some ex_anthropic, app_Model = Some ex_claude,
     app_Session = Some (ex_session [] 0), app_Messages = []\<rparr>"

definition ex_created :: "int \<Rightarrow> PostSessionCreateResponse call_result" where
  "ex_created status =
     Resp (Some \<lparr>sc_StatusCode = status, sc_JSON200 = Some (ex_session ''ses_1'' 1750000000)\<rparr>)"


definition ex_attachment :: Attachment where
  "ex_attachment = \<lparr>FilePath = ''/tmp/a.png'', FileName = ''a.png'', MimeType = ''image/png'',
     Content = [137, 80, 78, 71]\<rparr>"

section \<open>Properties\<close>

subsection \<open>Unfolding the definitions on concrete inputs\<close>

lemmas run_defs = InitializeProvider_def reconcile_def scan_providers_def scan_step_def
  scan_models_def preliminary_default_def find_anthropic_def seed_step_def
  getDefaultModel_def emit_def zero_ModelInfo_def

lemmas send_defs = SendChatMessage_def CreateSession_def append_and_dispatch_def
  optimisticMessage_def text_parts_def FromMessagePartText_def

subsection \<open>Resolution of the provider and the model\<close>

lemma foldl_seed_step_done:
  "fst d \<noteq> None \<Longrightarrow> snd d \<noteq> None \<Longrightarrow> foldl (seed_step body) d ps = d"
proof (induction ps)
  case Nil
  show ?case by simp
next
  case (Cons p ps)
  have "seed_step body d p = d" using Cons.prems by (cases d) (auto simp: seed_step_def)
  then show ?case using Cons by simp
qed

lemma foldl_seed_step_first:
  "fst d = None \<or> snd d = None \<Longrightarrow> \<forall>q\<in>set pre. getDefaultModel body q = None \<Longrightarrow>
   getDefaultModel body p \<noteq> None \<Longrightarrow>
   foldl (seed_step body) d (pre @ p # rest) = (Some p, getDefaultModel body p)"
proof (induction pre arbitrary: d)
  case Nil
  have "seed_step body d p = (Some p, getDefaultModel body p)"
    using Nil.prems by (simp add: seed_step_def)
  moreover have "foldl (seed_step body) (Some p, getDefaultModel body p) rest
      = (Some p, getDefaultModel body p)"
    using Nil.prems by (intro foldl_seed_step_done) simp_all
  ultimately show ?case by simp
next
  case (Cons q pre)
  have "seed_step body d q = (Some q, None)"
    using Cons.prems by (simp add: seed_step_def)
  then show ?case using Cons by simp
qed

lemma foldl_seed_step_none:
  "fst d = None \<or> snd d = None \<Longrightarrow> \<forall>q\<in>set ps. getDefaultModel body q = None \<Longrightarrow>
   ps \<noteq> [] \<Longrightarrow> foldl (seed_step body) d ps = (Some (last ps), None)"
proof (induction ps arbitrary: d)
  case Nil
  then show ?case by simp
next
  case (Cons q ps)
  have s: "seed_step body d q = (Some q, None)"
    using Cons.prems by (simp add: seed_step_def)
  show ?case
  proof (cases ps)
    case Nil
    then show ?thesis using s by simp
  next
    case (Cons a list)
    then show ?thesis using s Cons.IH[of "(Some q, None)"] Cons.prems by simp
  qed
qed

lemma find_anthropic_foldl:
  "foldl (\<lambda>anthropic provider.
              if provider_Id provider = ''anthropic'' then Some provider else anthropic) acc ps
   = (case filter (\<lambda>p. provider_Id p = ''anthropic'') ps of [] \<Rightarrow> acc | a # as \<Rightarrow> Some (last (a # as)))"
  by (induction ps arbitrary: acc) (auto split: list.splits)

lemma find_anthropic_eq:
  "find_anthropic ps =
    (case filter (\<lambda>p. provider_Id p = ''anthropic'') ps of [] \<Rightarrow> None | a # as \<Rightarrow> Some (last (a # as)))"
  unfolding find_anthropic_def by (rule find_anthropic_foldl)

lemma find_anthropic_None: "(find_anthropic ps = None) = (\<forall>p\<in>set ps. provider_Id p \<noteq> ''anthropic'')"
proof (cases "filter (\<lambda>p. provider_Id p = ''anthropic'') ps")
  case Nil
  then show ?thesis by (simp add: find_anthropic_eq filter_empty_conv)
next
  case (Cons a as)
  then have "a \<in> set (filter (\<lambda>p. provider_Id p = ''anthropic'') ps)" by simp
  then have "a \<in> set ps \<and> provider_Id a = ''anthropic''" by simp
  then show ?thesis using Cons by (auto simp: find_anthropic_eq)
qed

lemma find_anthropic_Some:
  assumes "find_anthropic ps = Some a"
  shows "a \<in> set ps \<and> provider_Id a = ''anthropic''"
proof -
  let ?f = "filter (\<lambda>p. provider_Id p = ''anthropic'') ps"
  from assms have ne: "?f \<noteq> []" and a: "a = last ?f"
    by (auto simp: find_anthropic_eq split: list.splits)
  then have "a \<in> set ?f" using last_in_set by blast
  then show ?thesis by simp
qed

lemma find_anthropic_last:
  assumes "provider_Id p = ''anthropic''"
    and "\<forall>q\<in>set rest. provider_Id q \<noteq> ''anthropic''"
  shows "find_anthropic (pre @ p # rest) = Some p"
proof -
  let ?P = "\<lambda>q. provider_Id q = ''anthropic''"
  have "filter ?P rest = []"
    using assms(2) by (simp add: filter_empty_conv)
  then have f: "filter ?P (pre @ p # rest) = filter ?P pre @ [p]"
    using assms(1) by simp
  show ?thesis
    unfolding find_anthropic_eq f by (cases "filter ?P pre") simp_all
qed

lemma scan_models_eq:
  "scan_models w cm ms =
     (case filter (\<lambda>km. model_Id (snd km) = w) ms of
        [] \<Rightarrow> cm | a # as \<Rightarrow> Some (snd (last (a # as))))"
  unfolding scan_models_def
  by (induction ms arbitrary: cm) (auto split: list.splits)

lemma scan_models_None:
  "(scan_models w cm ms = None) = (cm = None \<and> (\<forall>km\<in>set ms. model_Id (snd km) \<noteq> w))"
proof (cases "filter (\<lambda>km. model_Id (snd km) = w) ms")
  case Nil
  then show ?thesis by (simp add: scan_models_eq filter_empty_conv)
next
  case (Cons a as)
  then have "a \<in> set (filter (\<lambda>km. model_Id (snd km) = w) ms)" by simp
  then have "a \<in> set ms \<and> model_Id (snd a) = w" by simp
  then show ?thesis using Cons by (auto simp: scan_models_eq)
qed

lemma scan_models_Some:
  assumes "scan_models w cm ms = Some m"
  shows "cm = Some m \<or> (model_Id m = w \<and> m \<in> snd ` set ms)"
proof (cases "filter (\<lambda>km. model_Id (snd km) = w) ms")
  case Nil
  then show ?thesis using assms by (simp add: scan_models_eq)
next
  case (Cons a as)
  let ?f = "filter (\<lambda>km. model_Id (snd km) = w) ms"
  have "last ?f \<in> set ?f" using Cons by (intro last_in_set) simp
  moreover have "m = snd (last ?f)" using assms Cons by (simp add: scan_models_eq)
  ultimately show ?thesis by auto
qed

lemma foldl_scan_step_fst_None:
  "(fst (foldl (scan_step st) c ps) = None) =
     (fst c = None \<and> (\<forall>p\<in>set ps. provider_Id p \<noteq> state_Provider st))"
  by (induction ps arbitrary: c) (auto simp: scan_step_def)

lemma foldl_scan_step_fst_Some:
  "fst (foldl (scan_step st) c ps) = Some p \<Longrightarrow>
     fst c = Some p \<or> (p \<in> set ps \<and> provider_Id p = state_Provider st)"
proof (induction ps arbitrary: c)
  case Nil
  then show ?case by simp
next
  case (Cons q ps)
  from Cons.IH[of "scan_step st c q"] Cons.prems
  consider "fst (scan_step st c q) = Some p"
    | "p \<in> set ps \<and> provider_Id p = state_Provider st"
    by auto
  then show ?case
  proof cases
    case 1
    then show ?thesis by (auto simp: scan_step_def split: if_splits)
  next
    case 2
    then show ?thesis by auto
  qed
qed

lemma foldl_scan_step_snd_None:
  "(snd (foldl (scan_step st) c ps) = None) =
     (snd c = None \<and> \<not> persisted_available st ps)"
  by (induction ps arbitrary: c)
     (auto simp: scan_step_def persisted_available_def scan_models_None)

lemma foldl_scan_step_snd_Some:
  "snd (foldl (scan_step st) c ps) = Some m \<Longrightarrow>
     snd c = Some m \<or>
     (model_Id m = state_Model st \<and>
      (\<exists>q\<in>set ps. provider_Id q = state_Provider st \<and> m \<in> snd ` set (provider_Models q)))"
proof (induction ps arbitrary: c)
  case Nil
  then show ?case by simp
next
  case (Cons p ps)
  from Cons.IH[of "scan_step st c p"] Cons.prems
  consider "snd (scan_step st c p) = Some m"
    | "model_Id m = state_Model st \<and>
      (\<exists>q\<in>set ps. provider_Id q = state_Provider st \<and> m \<in> snd ` set (provider_Models q))"
    by auto
  then show ?case
  proof cases
    case 1
    then show ?thesis
      by (auto simp: scan_step_def split: if_splits dest!: scan_models_Some)
  next
    case 2
    then show ?thesis by auto
  qed
qed

lemma persisted_available_fst:
  "persisted_available st ps \<Longrightarrow> fst (scan_providers st ps) \<noteq> None"
  by (auto simp: scan_providers_def foldl_scan_step_fst_None persisted_available_def)

lemma reconcile_available:
  assumes "persisted_available st ps"
  shows "\<exists>p m. reconcile st ps d = (Some p, Some m) \<and> p \<in> set ps \<and>
           provider_Id p = state_Provider st \<and> model_Id m = state_Model st \<and>
           (\<exists>q\<in>set ps. provider_Id q = state_Provider st \<and> m \<in> snd ` set (provider_Models q))"
proof -
  obtain cp cm where c: "scan_providers st ps = (cp, cm)" by (cases "scan_providers st ps")
  from persisted_available_fst[OF assms] c obtain p where p: "cp = Some p" by auto
  from assms c have "cm \<noteq> None"
    using foldl_scan_step_snd_None[of st "(None, None)" ps] by (auto simp: scan_providers_def)
  then obtain m where m: "cm = Some m" by auto
  have "p \<in> set ps \<and> provider_Id p = state_Provider st"
    using foldl_scan_step_fst_Some[of st "(None, None)" ps p] c p by (simp add: scan_providers_def)
  moreover have "model_Id m = state_Model st \<and>
      (\<exists>q\<in>set ps. provider_Id q = state_Provider st \<and> m \<in> snd ` set (provider_Models q))"
    using foldl_scan_step_snd_Some[of st "(None, None)" ps m] c m by (simp add: scan_providers_def)
  moreover have "reconcile st ps d = (Some p, Some m)"
    using c p m by (simp add: reconcile_def)
  ultimately show ?thesis by blast
qed

lemma reconcile_unavailable:
  assumes "\<not> persisted_available st ps"
  shows "reconcile st ps d = d"
proof -
  have "snd (scan_providers st ps) = None"
    using assms foldl_scan_step_snd_None[of st "(None, None)" ps] by (simp add: scan_providers_def)
  then show ?thesis by (simp add: reconcile_def)
qed

lemma getDefaultModel_None:
  "(getDefaultModel body p = None) = (Default body (provider_Id p) = None \<and> provider_Models p = [])"
  by (auto simp: getDefaultModel_def split: option.splits list.splits)

lemma InitializeProvider_fetched:
  assumes "pl_StatusCode r = 200" and "pl_JSON200 r = Some body" and "Providers body \<noteq> []"
  shows "InitializeProvider (Resp (Some r)) st
           = emit (reconcile st (Providers body) (preliminary_default body))"
  using assms by (simp add: InitializeProvider_def)

lemma preliminary_default_anthropic:
  assumes "find_anthropic (Providers body) = Some a" and "getDefaultModel body a = Some m"
  shows "preliminary_default body = (Some a, Some m)"
  using assms by (simp add: preliminary_default_def foldl_seed_step_done)

lemma preliminary_default_first:
  assumes "\<forall>q\<in>set (Providers body). provider_Id q \<noteq> ''anthropic''"
    and "Providers body = pre @ p # rest"
    and "\<forall>q\<in>set pre. getDefaultModel body q = None"
    and "getDefaultModel body p = Some m"
  shows "preliminary_default body = (Some p, Some m)"
proof -
  have "find_anthropic (Providers body) = None"
    using assms(1) by (simp add: find_anthropic_None)
  then have "preliminary_default body = foldl (seed_step body) (None, None) (pre @ p # rest)"
    by (simp add: preliminary_default_def assms(2))
  also have "\<dots> = (Some p, getDefaultModel body p)"
    using assms(3,4) by (intro foldl_seed_step_first) simp_all
  finally show ?thesis by (simp add: assms(4))
qed

text \<open>
  \<^bold>\<open>Claim C1\<close> (as amended). Let the fetch succeed with a list that contains a provider
  \<open>p\<close> whose id is \<^verbatim>\<open>"anthropic"\<close>, wherever it stands in the list (\<open>pre\<close> in front of it,
  \<open>rest\<close> behind it; should the id occur more than once, \<open>p\<close> is the last provider
  with it). If the defaults map has an entry for \<^verbatim>\<open>"anthropic"\<close> or the model mapping of \<open>p\<close>
  is not empty, then \<open>getDefaultModel\<close> yields a model \<open>m\<close> for \<open>p\<close>, the preliminary
  default is \<open>(p, m)\<close>, and \<open>InitializeProvider\<close> returns this pair unless the persisted
  selection is available. When the defaults map has an entry \<open>match\<close>, \<open>m\<close> is the entry
  of the model mapping of \<open>p\<close> under the key \<open>match\<close>, the zero model when the key is
  missing.
\<close>

theorem InitializeProvider_prefers_anthropic:
  assumes "pl_StatusCode r = 200" and "pl_JSON200 r = Some body"
    and "Providers body = pre @ p # rest" and "provider_Id p = ''anthropic''"
    and "\<forall>q\<in>set rest. provider_Id q \<noteq> ''anthropic''"
    and "Default body ''anthropic'' \<noteq> None \<or> provider_Models p \<noteq> []"
  shows "\<exists>m. getDefaultModel body p = Some m \<and>
           preliminary_default body = (Some p, Some m) \<and>
           (\<forall>match. Default body ''anthropic'' = Some match \<longrightarrow>
              m = (case map_of (provider_Models p) match of
                     Some model \<Rightarrow> model | None \<Rightarrow> zero_ModelInfo)) \<and>
           (\<not> persisted_available st (Providers body) \<longrightarrow>
              InitializeProvider (Resp (Some r)) st = Returns ([], Some (ModelSelectedMsg p m)))"
proof -
  have "getDefaultModel body p \<noteq> None"
    using assms(4,6) by (simp add: getDefaultModel_None)
  then obtain m where m: "getDefaultModel body p = Some m" by auto
  have a: "find_anthropic (Providers body) = Some p"
    unfolding assms(3) using assms(4,5) by (rule find_anthropic_last)
  have d: "preliminary_default body = (Some p, Some m)"
    using a m by (rule preliminary_default_anthropic)
  have ne: "Providers body \<noteq> []" using assms(3) by simp
  have "InitializeProvider (Resp (Some r)) st = Returns ([], Some (ModelSelectedMsg p m))"
    if "\<not> persisted_available st (Providers body)"
    using that d by (simp add: InitializeProvider_fetched[OF assms(1,2) ne] reconcile_unavailable emit_def)
  moreover have "m = (case map_of (provider_Models p) match of
                     Some model \<Rightarrow> model | None \<Rightarrow> zero_ModelInfo)"
    if "Default body ''anthropic'' = Some match" for match
    using that m assms(4) by (simp add: getDefaultModel_def)
  ultimately show ?thesis using m d by blast
qed

text \<open>
  The scenario of the specification: providers \<^verbatim>\<open>openai\<close>, \<^verbatim>\<open>anthropic\<close> and the defaults
  map \<^verbatim>\<open>{"anthropic": "claude-3"}\<close>.
\<close>

theorem InitializeProvider_prefers_anthropic_witness:
  "ex_anthropic \<in> set [ex_openai, ex_anthropic] \<and>
   preliminary_default \<lparr>Providers = [ex_openai, ex_anthropic],
       Default = [''anthropic'' \<mapsto> ''claude-3'']\<rparr> = (Some ex_anthropic, Some ex_claude) \<and>
   InitializeProvider
     (Resp (Some (ok_response \<lparr>Providers = [ex_openai, ex_anthropic],
       Default = [''anthropic'' \<mapsto> ''claude-3'']\<rparr>))) (ex_state [] [])
     = Returns ([], Some (ModelSelectedMsg ex_anthropic ex_claude))"
  using InitializeProvider_prefers_anthropic [of
      "ok_response \<lparr>Providers = [ex_openai, ex_anthropic],
         Default = [''anthropic'' \<mapsto> ''claude-3'']\<rparr>"
      "\<lparr>Providers = [ex_openai, ex_anthropic], Default = [''anthropic'' \<mapsto> ''claude-3'']\<rparr>"
      "[ex_openai]" ex_anthropic "[]" "ex_state [] []"]
  by (simp add: ok_response_def ex_openai_def ex_anthropic_def ex_claude_def ex_gpt_def ex_state_def run_defs persisted_available_def)

text \<open>
  Claim C1 as stated fails: an \<^verbatim>\<open>anthropic\<close> provider with an empty model mapping and no
  entry in the defaults map leaves \<^verbatim>\<open>defaultModel\<close> nil, and the loop of lines 162 to 168
  replaces it by the next provider that has a model.
\<close>

theorem InitializeProvider_anthropic_counterexample:
  "ex_anthropic_bare \<in> set [ex_anthropic_bare, ex_openai] \<and>
   provider_Id ex_anthropic_bare = ''anthropic'' \<and>
   preliminary_default \<lparr>Providers = [ex_anthropic_bare, ex_openai], Default = Map.empty\<rparr>
     = (Some ex_openai, Some ex_gpt) \<and>
   InitializeProvider
     (Resp (Some (ok_response \<lparr>Providers = [ex_anthropic_bare, ex_openai], Default = Map.empty\<rparr>)))
     (ex_state [] [])
     = Returns ([], Some (ModelSelectedMsg ex_openai ex_gpt))"
  by (simp add: ok_response_def ex_anthropic_bare_def ex_openai_def ex_gpt_def ex_state_def run_defs)

text \<open>
  \<^bold>\<open>Claim C3\<close> (as amended). Let the fetch succeed with a list that contains no provider
  with id \<^verbatim>\<open>"anthropic"\<close>. The preliminary default provider is the first provider \<open>p\<close> of
  the list, in its returned order, for which \<open>getDefaultModel\<close> yields a model: the
  providers \<open>pre\<close> in front of it yield none. With \<open>pre = []\<close> it is the first provider
  of the list. \<open>InitializeProvider\<close> returns \<open>p\<close> and its model unless the persisted
  selection is available.
\<close>

theorem InitializeProvider_first_with_model:
  assumes "pl_StatusCode r = 200" and "pl_JSON200 r = Some body"
    and "\<forall>q\<in>set (Providers body). provider_Id q \<noteq> ''anthropic''"
    and "Providers body = pre @ p # rest"
    and "\<forall>q\<in>set pre. getDefaultModel body q = None"
    and "getDefaultModel body p = Some m"
  shows "preliminary_default body = (Some p, Some m) \<and>
         (\<not> persisted_available st (Providers body) \<longrightarrow>
            InitializeProvider (Resp (Some r)) st = Returns ([], Some (ModelSelectedMsg p m)))"
proof -
  have d: "preliminary_default body = (Some p, Some m)"
    using assms(3-6) by (rule preliminary_default_first)
  have ne: "Providers body \<noteq> []" using assms(4) by simp
  show ?thesis
    using d by (simp add: InitializeProvider_fetched[OF assms(1,2) ne] reconcile_unavailable emit_def)
qed

text \<open>The first provider has a model and is selected (\<open>pre = []\<close>).\<close>

theorem InitializeProvider_first_with_model_witness:
  "preliminary_default \<lparr>Providers = [ex_openai, ex_local_bare], Default = Map.empty\<rparr>
     = (Some ex_openai, Some ex_gpt) \<and>
   InitializeProvider
     (Resp (Some (ok_response \<lparr>Providers = [ex_openai, ex_local_bare], Default = Map.empty\<rparr>)))
     (ex_state ''anthropic'' ''claude-3'')
     = Returns ([], Some (ModelSelectedMsg ex_openai ex_gpt))"
  using InitializeProvider_first_with_model [of
      "ok_response \<lparr>Providers = [ex_openai, ex_local_bare], Default = Map.empty\<rparr>"
      "\<lparr>Providers = [ex_openai, ex_local_bare], Default = Map.empty\<rparr>"
      "[]" ex_openai "[ex_local_bare]" ex_gpt "ex_state ''anthropic'' ''claude-3''"]
  by (simp add: ok_response_def ex_openai_def ex_local_bare_def ex_gpt_def ex_state_def run_defs persisted_available_def)

text \<open>
  Claim C3 as stated fails: the first provider has no model and no entry in the defaults
  map, so the condition \<^verbatim>\<open>defaultModel == nil\<close> of line 163 lets the second provider
  replace it.
\<close>

theorem InitializeProvider_first_counterexample:
  "hd [ex_local_bare, ex_openai] = ex_local_bare \<and>
   provider_Id ex_local_bare \<noteq> ''anthropic'' \<and> provider_Id ex_openai \<noteq> ''anthropic'' \<and>
   ex_local_bare \<noteq> ex_openai \<and>
   preliminary_default \<lparr>Providers = [ex_local_bare, ex_openai], Default = Map.empty\<rparr>
     = (Some ex_openai, Some ex_gpt) \<and>
   InitializeProvider
     (Resp (Some (ok_response \<lparr>Providers = [ex_local_bare, ex_openai], Default = Map.empty\<rparr>)))
     (ex_state [] [])
     = Returns ([], Some (ModelSelectedMsg ex_openai ex_gpt))"
  by (simp add: ok_response_def ex_openai_def ex_local_bare_def ex_gpt_def ex_state_def run_defs)




text \<open>
  \<^bold>\<open>Claim C8\<close> (as amended). When the fetch succeeds with an empty provider list,
  \<open>InitializeProvider\<close> logs \<^verbatim>\<open>No providers configured\<close> and returns the nil message: it
  completes without a result and without a typed failure, as it does when the fetch
  itself fails.
\<close>

theorem InitializeProvider_no_providers:
  assumes "pl_StatusCode r = 200" and "pl_JSON200 r = Some body" and "Providers body = []"
  shows "InitializeProvider (Resp (Some r)) st = Returns ([No_providers_configured], None) \<and>
         InitializeProvider (Err e) st = Returns ([Failed_to_list_providers e], None)"
  using assms by (simp add: InitializeProvider_def)

text \<open>
  Claim C8 as stated fails: the result for the empty list is the nil message; no error
  value is returned to the caller.
\<close>

theorem InitializeProvider_no_providers_counterexample:
  "InitializeProvider
     (Resp (Some (ok_response \<lparr>Providers = [], Default = Map.empty\<rparr>))) (ex_state [] [])
     = Returns ([No_providers_configured], None)"
  by (simp add: ok_response_def ex_state_def run_defs)

text \<open>An empty list, whatever the defaults map and the persisted selection.\<close>

theorem InitializeProvider_no_providers_witness:
  "Providers \<lparr>Providers = [], Default = [''anthropic'' \<mapsto> ''claude-3'']\<rparr> = [] \<and>
   InitializeProvider
     (Resp (Some (ok_response \<lparr>Providers = [], Default = [''anthropic'' \<mapsto> ''claude-3'']\<rparr>)))
     (ex_state ''anthropic'' ''claude-3'')
     = Returns ([No_providers_configured], None)"
  using InitializeProvider_no_providers [of
      "ok_response \<lparr>Providers = [], Default = [''anthropic'' \<mapsto> ''claude-3'']\<rparr>"
      "\<lparr>Providers = [], Default = [''anthropic'' \<mapsto> ''claude-3'']\<rparr>"
      "ex_state ''anthropic'' ''claude-3''"]
  by (simp add: ok_response_def ex_state_def)

lemma preliminary_default_unresolved:
  assumes "\<forall>p\<in>set (Providers body). getDefaultModel body p = None" and "Providers body \<noteq> []"
  shows "preliminary_default body = (Some (last (Providers body)), None)"
proof -
  have "fst d0 = None \<or> snd d0 = None"
    if "d0 = (case find_anthropic (Providers body) of
                  None \<Rightarrow> (None, None)
                | Some a \<Rightarrow> (Some a, getDefaultModel body a))" for d0
    using that assms(1) by (auto split: option.splits dest: find_anthropic_Some)
  then show ?thesis
    using assms by (simp add: preliminary_default_def Let_def foldl_seed_step_none)
qed

lemma foldl_seed_step_resolved:
  assumes "q \<in> set ps" and "getDefaultModel body q \<noteq> None"
  shows "\<exists>p m. foldl (seed_step body) d ps = (Some p, Some m)"
proof (cases "fst d = None \<or> snd d = None")
  case False
  then show ?thesis by (cases d) (auto simp: foldl_seed_step_done)
next
  case True
  from assms have "\<exists>x\<in>set ps. getDefaultModel body x \<noteq> None" by blast
  then obtain pre p rest where ps: "ps = pre @ p # rest"
    and p: "getDefaultModel body p \<noteq> None"
    and pre: "\<forall>x\<in>set pre. \<not> getDefaultModel body x \<noteq> None"
    by (auto simp: split_list_first_prop_iff)
  from pre have "\<forall>x\<in>set pre. getDefaultModel body x = None" by simp
  from foldl_seed_step_first[OF True this p, of rest] p show ?thesis
    by (auto simp: ps)
qed

text \<open>
  \<^bold>\<open>Claim C10\<close>. Let the fetch succeed with a non-empty list. The dereference of lines 193
  to 196 panics exactly when no fetched provider yields a default model. In particular,
  when every provider has an empty model mapping and no entry in the defaults map, the
  default model stays nil and \<open>InitializeProvider\<close> panics, whatever the persisted
  selection.
\<close>

theorem InitializeProvider_nil_dereference:
  assumes "pl_StatusCode r = 200" and "pl_JSON200 r = Some body" and "Providers body \<noteq> []"
  shows "((InitializeProvider (Resp (Some r)) st = Panic)
            = (\<forall>p\<in>set (Providers body). getDefaultModel body p = None)) \<and>
         ((\<forall>p\<in>set (Providers body).
              provider_Models p = [] \<and> Default body (provider_Id p) = None) \<longrightarrow>
            snd (preliminary_default body) = None \<and>
            InitializeProvider (Resp (Some r)) st = Panic)"
proof -
  have run: "InitializeProvider (Resp (Some r)) st
           = emit (reconcile st (Providers body) (preliminary_default body))"
    using assms by (rule InitializeProvider_fetched)
  have none: "snd (preliminary_default body) = None \<and> InitializeProvider (Resp (Some r)) st = Panic"
    if all: "\<forall>p\<in>set (Providers body). getDefaultModel body p = None"
  proof -
    have d: "preliminary_default body = (Some (last (Providers body)), None)"
      using all assms(3) by (rule preliminary_default_unresolved)
    have "\<not> persisted_available st (Providers body)"
      using all by (auto simp: persisted_available_def getDefaultModel_None)
    then show ?thesis using d by (simp add: run reconcile_unavailable emit_def)
  qed
  have some: "InitializeProvider (Resp (Some r)) st \<noteq> Panic"
    if ex: "\<exists>p\<in>set (Providers body). getDefaultModel body p \<noteq> None"
  proof -
    from ex obtain q where q: "q \<in> set (Providers body)" "getDefaultModel body q \<noteq> None" by blast
    have "\<exists>dp dm. preliminary_default body = (Some dp, Some dm)"
      unfolding preliminary_default_def Let_def by (rule foldl_seed_step_resolved[OF q])
    then obtain dp dm where d: "preliminary_default body = (Some dp, Some dm)" by blast
    show ?thesis
    proof (cases "persisted_available st (Providers body)")
      case True
      from reconcile_available[OF this, of "preliminary_default body"]
      obtain p m where "reconcile st (Providers body) (preliminary_default body) = (Some p, Some m)"
        by blast
      then show ?thesis by (simp add: run emit_def)
    next
      case False
      then show ?thesis using d by (simp add: run reconcile_unavailable emit_def)
    qed
  qed
  have iff: "(InitializeProvider (Resp (Some r)) st = Panic)
            = (\<forall>p\<in>set (Providers body). getDefaultModel body p = None)"
    using none some by blast
  have "snd (preliminary_default body) = None \<and> InitializeProvider (Resp (Some r)) st = Panic"
    if "\<forall>p\<in>set (Providers body). provider_Models p = [] \<and> Default body (provider_Id p) = None"
    using that by (intro none) (simp add: getDefaultModel_None)
  with iff show ?thesis by blast
qed

text \<open>Two providers without models and an empty defaults map.\<close>

theorem InitializeProvider_nil_dereference_witness:
  "Providers \<lparr>Providers = [ex_local_bare, ex_anthropic_bare], Default = Map.empty\<rparr> \<noteq> [] \<and>
   snd (preliminary_default \<lparr>Providers = [ex_local_bare, ex_anthropic_bare], Default = Map.empty\<rparr>) = None \<and>
   InitializeProvider
     (Resp (Some (ok_response \<lparr>Providers = [ex_local_bare, ex_anthropic_bare], Default = Map.empty\<rparr>)))
     (ex_state ''anthropic'' ''claude-3'') = Panic"
  using InitializeProvider_nil_dereference [of
      "ok_response \<lparr>Providers = [ex_local_bare, ex_anthropic_bare], Default = Map.empty\<rparr>"
      "\<lparr>Providers = [ex_local_bare, ex_anthropic_bare], Default = Map.empty\<rparr>"
      "ex_state ''anthropic'' ''claude-3''"]
  by (simp add: ok_response_def ex_local_bare_def ex_anthropic_bare_def ex_state_def)

subsection \<open>Busy state and sending\<close>

lemma IsBusy_last:
  "IsBusy a = (app_Messages a \<noteq> [] \<and>
     time_Completed (meta_Time (msg_Metadata (last (app_Messages a)))) = None)"
  by (auto simp: IsBusy_def Let_def last_conv_nth)

lemma append_and_dispatch_busy:
  "append_and_dispatch a cmds effs unixNano unix txt = Returns (a', c, effs') \<Longrightarrow> IsBusy a'"
  by (auto simp: append_and_dispatch_def Let_def IsBusy_last optimisticMessage_def
      split: option.splits)

text \<open>
  \<^bold>\<open>Claim C6\<close>. \<open>IsBusy\<close> holds exactly when the message sequence is not empty and the
  completion time of its last message is unset. It is false for the empty sequence, and
  it holds in the state left by every \<open>SendChatMessage\<close> that went through (the call
  returned the batch of commands and not the error toast).
\<close>

theorem IsBusy_iff_last_uncompleted:
  "(IsBusy a = (app_Messages a \<noteq> [] \<and>
      time_Completed (meta_Time (msg_Metadata (last (app_Messages a)))) = None)) \<and>
   (app_Messages a = [] \<longrightarrow> \<not> IsBusy a) \<and>
   (\<forall>a' cmds effs.
      SendChatMessage a created unixNano unix txt attachments = Returns (a', Batch cmds, effs)
        \<longrightarrow> IsBusy a')"
proof -
  have "IsBusy a'"
    if "SendChatMessage a created unixNano unix txt attachments = Returns (a', Batch cmds, effs)"
    for a' cmds effs
    using that
    by (auto simp: SendChatMessage_def split: option.splits if_splits go_result.splits sum.splits
        dest: append_and_dispatch_busy)
  then show ?thesis by (auto simp: IsBusy_last)
qed

text \<open>Not busy before the first send, busy after it.\<close>

theorem IsBusy_iff_last_uncompleted_witness:
  "\<not> IsBusy ex_app \<and>
   (case SendChatMessage ex_app (ex_created 200) 1750000000123456789 1750000000 ''hi'' [] of
      Panic \<Rightarrow> False
    | Returns (a', c, effs) \<Rightarrow> (\<exists>cmds. c = Batch cmds) \<and> IsBusy a')"
  using IsBusy_iff_last_uncompleted [of ex_app "ex_created 200" 1750000000123456789 1750000000 "''hi''" "[]"]
  by (simp add: send_defs ex_session_def ex_app_def ex_created_def Let_def)



text \<open>
  \<^bold>\<open>Claim C5\<close>. Let the active session have the empty id. If the creation request fails
  with a transport error or is answered with a status other than 200, then
  \<open>SendChatMessage\<close> returns the error toast with the description of the failure and
  the unchanged state: no message is appended and no command that sends the chat
  request is returned; the creation request is the only effect.
\<close>

theorem SendChatMessage_create_failure_aborts:
  assumes "app_Session a = Some current" and "session_Id current = []"
  shows "(created = Err err \<longrightarrow>
            SendChatMessage a created unixNano unix txt attachments
              = Returns (a, NewErrorToast err, [Requested_PostSessionCreate])) \<and>
         (created = Resp (Some resp) \<and> sc_StatusCode resp \<noteq> 200 \<longrightarrow>
            SendChatMessage a created unixNano unix txt attachments
              = Returns (a, NewErrorToast (''failed to create session: '' @ Sprintf_d (sc_StatusCode resp)),
                         [Requested_PostSessionCreate]))"
  using assms by (simp add: SendChatMessage_def CreateSession_def)

text \<open>Status 500, and a transport error.\<close>

theorem SendChatMessage_create_failure_aborts_witness:
  "app_Session ex_app = Some (ex_session [] 0) \<and>
   SendChatMessage ex_app (ex_created 500) 1750000000123456789 1750000001 ''hi'' []
     = Returns (ex_app, NewErrorToast ''failed to create session: 500'', [Requested_PostSessionCreate]) \<and>
   SendChatMessage ex_app (Err ''connection refused'') 1750000000123456789 1750000001 ''hi'' []
     = Returns (ex_app, NewErrorToast ''connection refused'', [Requested_PostSessionCreate])"
proof -
  have d: "Sprintf_d 500 = ''500''" by code_simp
  show ?thesis
    using SendChatMessage_create_failure_aborts [of ex_app "ex_session [] 0" "ex_created 500"
        "''connection refused''" 1750000000123456789 1750000001 "''hi''" "[]"
        "\<lparr>sc_StatusCode = 500, sc_JSON200 = Some (ex_session ''ses_1'' 1750000000)\<rparr>"]
      SendChatMessage_create_failure_aborts [of ex_app "ex_session [] 0" "Err ''connection refused''"
        "''connection refused''" 1750000000123456789 1750000001 "''hi''" "[]"]
    by (simp add: ex_session_def ex_app_def ex_created_def d)
qed

text \<open>
  \<^bold>\<open>Claim C9\<close> (as amended). \<open>SendChatMessage\<close> accepts the attachments and never reads
  them: the new state, the commands returned (among them the command that sends the chat
  request, built from the text parts) and the effects are the same for every two
  attachment lists.
\<close>

theorem SendChatMessage_ignores_attachments:
  "SendChatMessage a created unixNano unix txt attachments
     = SendChatMessage a created unixNano unix txt attachments'"
  by (simp add: SendChatMessage_def)

text \<open>
  Claim C9 as stated fails: with and without an attachment the call gives the same
  result, and the request that the returned command builds in the new state carries
  the session id, the text part, the provider id and the model id only.
\<close>

theorem SendChatMessage_attachments_counterexample:
  "[ex_attachment] \<noteq> [] \<and>
   SendChatMessage ex_app (ex_created 200) 1750000000123456789 1750000001 ''hi'' [ex_attachment]
     = SendChatMessage ex_app (ex_created 200) 1750000000123456789 1750000001 ''hi'' [] \<and>
   SendChatMessage ex_app (ex_created 200) 1750000000123456789 1750000001 ''hi'' [ex_attachment]
     = Returns (ex_app\<lparr>app_Session := Some (ex_session ''ses_1'' 1750000000),
                  app_Messages := [optimisticMessage (ex_session ''ses_1'' 1750000000)
                     1750000000123456789 1750000001 (text_parts ''hi'')]\<rparr>,
                Batch [CmdHandler (SessionSelectedMsg (Some (ex_session ''ses_1'' 1750000000))),
                       CmdHandler (OptimisticMessageAddedMsg
                         (optimisticMessage (ex_session ''ses_1'' 1750000000)
                            1750000000123456789 1750000001 (text_parts ''hi''))),
                       PostSessionChatCmd (text_parts ''hi'')],
                [Requested_PostSessionCreate,
                 Appended (optimisticMessage (ex_session ''ses_1'' 1750000000)
                            1750000000123456789 1750000001 (text_parts ''hi''))]) \<and>
   PostSessionChat_request
       (ex_app\<lparr>app_Session := Some (ex_session ''ses_1'' 1750000000),
                  app_Messages := [optimisticMessage (ex_session ''ses_1'' 1750000000)
                     1750000000123456789 1750000001 (text_parts ''hi'')]\<rparr>)
       (text_parts ''hi'')
     = Returns \<lparr>chat_SessionID = ''ses_1'',
          chat_Parts = [MessagePart_Text \<lparr>part_Type = ''text'', part_Text = ''hi''\<rparr>],
          chat_ProviderID = ''anthropic'', chat_ModelID = ''claude-3''\<rparr>"
  by (simp add: send_defs PostSessionChat_request_def ex_session_def ex_app_def ex_created_def
      ex_anthropic_def ex_claude_def Let_def)

subsection \<open>Listing sessions\<close>
















end
